theory Spec2Isabelle
  imports Main "HOL-Library.Sublist"
begin

section \<open>Dusky Control Center: a shallow embedding of \<^verbatim>\<open>dusky_control_center.py\<close>\<close>

text \<open>
  The program is a GTK launcher: it resolves a terminal emulator, loads a YAML
  configuration, and on a click spawns the configured command. The embedding keeps the
  pure parts as HOL functions and makes the surroundings explicit:
  \<^item> the operating system is a set of parameters: \<open>which\<close> (the result of
    \<^verbatim>\<open>shutil.which\<close>), \<open>expandvars\<close> (\<^verbatim>\<open>os.path.expandvars\<close> under the current
    environment), \<open>popen\<close> (whether \<^verbatim>\<open>subprocess.Popen\<close> raises on a call) and a record
    for the file system;
  \<^item> the calls a handler makes to the outside (\<^verbatim>\<open>os.path.expandvars\<close>, \<^verbatim>\<open>print\<close>,
    \<^verbatim>\<open>subprocess.Popen\<close>) are recorded, in order, as a list of events;
  \<^item> an exception is a value; a handler returns its events and the exception that
    leaves it, if any.
  Strings are \<open>char list\<close>, one \<open>char\<close> per code point, so the model covers text in the
  Latin-1 range. \<^verbatim>\<open>print\<close> is taken not to fail, and only exceptions derived from
  Python's \<^verbatim>\<open>Exception\<close> are modelled (asynchronous ones such as
  \<^verbatim>\<open>KeyboardInterrupt\<close> are outside the model).
\<close>

subsection \<open>Branding and configuration (lines 19--24)\<close>

definition APP_TITLE :: string where
  "APP_TITLE = ''Dusky Control Center''"

definition CONFIG_FILENAME :: string where
  "CONFIG_FILENAME = ''dusky_config.yaml''"

definition TERMINALS :: "string list" where
  "TERMINALS = [''kitty'', ''foot'', ''alacritty'', ''wezterm'', ''gnome-terminal'',
     ''konsole'', ''xfce4-terminal'']"

subsection \<open>Python values\<close>

text \<open>
  What \<^verbatim>\<open>yaml.safe_load\<close> returns: \<^verbatim>\<open>None\<close>, booleans, integers, strings, lists and
  dicts (an association list, looked up from the front). Floats, timestamps and binary
  scalars are left out; nothing below inspects them.
\<close>

datatype yaml =
    YNull
  | YBool bool
  | YInt int
  | YStr string
  | YList "yaml list"
  | YMap "(yaml \<times> yaml) list"

text \<open>Python truthiness, as used by \<^verbatim>\<open>if x\<close>, \<^verbatim>\<open>not x\<close> and \<^verbatim>\<open>a if x else b\<close>.\<close>

fun truthy :: "yaml \<Rightarrow> bool" where
  "truthy YNull = False"
| "truthy (YBool b) = b"
| "truthy (YInt n) = (n \<noteq> 0)"
| "truthy (YStr s) = (s \<noteq> [])"
| "truthy (YList xs) = (xs \<noteq> [])"
| "truthy (YMap kvs) = (kvs \<noteq> [])"

text \<open>Truthiness of an \<^verbatim>\<open>Optional[str]\<close>: \<^verbatim>\<open>None\<close> and the empty string are false.\<close>

fun truthy_opt :: "string option \<Rightarrow> bool" where
  "truthy_opt None = False"
| "truthy_opt (Some s) = (s \<noteq> [])"

text \<open>\<^verbatim>\<open>d.get(key, default)\<close>.\<close>

definition dict_get :: "(yaml \<times> yaml) list \<Rightarrow> yaml \<Rightarrow> yaml \<Rightarrow> yaml" where
  "dict_get d key dflt = (case map_of d key of None \<Rightarrow> dflt | Some v \<Rightarrow> v)"

text \<open>\<^verbatim>\<open>type(x).__name__\<close>, for the message of an \<^verbatim>\<open>AttributeError\<close>.\<close>

fun type_name :: "yaml \<Rightarrow> string" where
  "type_name YNull = ''NoneType''"
| "type_name (YBool b) = ''bool''"
| "type_name (YInt n) = ''int''"
| "type_name (YStr s) = ''str''"
| "type_name (YList xs) = ''list''"
| "type_name (YMap kvs) = ''dict''"

text \<open>An exception instance: its class name and \<^verbatim>\<open>str(e)\<close>.\<close>

datatype exn = Exn (cls: string) (msg: string)

subsection \<open>String operations\<close>

text \<open>\<^verbatim>\<open>str.isspace\<close> on one character, for code points below 256.\<close>

definition isspace :: "char \<Rightarrow> bool" where
  "isspace c =
     (let n = (of_char c :: nat)
      in (9 \<le> n \<and> n \<le> 13) \<or> (28 \<le> n \<and> n \<le> 32) \<or> n = 133 \<or> n = 160)"

text \<open>\<^verbatim>\<open>s.strip()\<close>: leading and trailing whitespace removed.\<close>

definition strip :: "string \<Rightarrow> string" where
  "strip s = rev (dropWhile isspace (rev (dropWhile isspace s)))"

text \<open>\<^verbatim>\<open>sub in s\<close> on strings: \<open>sub\<close> occurs in \<open>s\<close> as a contiguous block.\<close>

definition str_contains :: "string \<Rightarrow> string \<Rightarrow> bool" where
  "str_contains s sub = sublist sub s"

text \<open>\<^verbatim>\<open>os.path.join(a, b)\<close> of \<^verbatim>\<open>posixpath\<close>, for two components.\<close>

definition path_join :: "string \<Rightarrow> string \<Rightarrow> string" where
  "path_join a b =
     (if b \<noteq> [] \<and> hd b = CHR ''/'' then b
      else if a = [] \<or> last a = CHR ''/'' then a @ b
      else a @ ''/'' @ b)"

subsection \<open>Terminal utilities (lines 29--61)\<close>

text \<open>
  \<open>find_terminal\<close>: the loop over \<open>TERMINALS\<close> is \<open>first_available\<close>; \<open>which\<close> is
  \<^verbatim>\<open>shutil.which\<close>, a path or \<^verbatim>\<open>None\<close>.
\<close>

fun first_available :: "(string \<Rightarrow> string option) \<Rightarrow> string list \<Rightarrow> string option" where
  "first_available which [] = None"
| "first_available which (t # ts) =
     (if truthy_opt (which t) then Some t else first_available which ts)"

definition find_terminal :: "(string \<Rightarrow> string option) \<Rightarrow> string option" where
  "find_terminal which = first_available which TERMINALS"

definition wait_suffix :: string where
  \<open>wait_suffix = ''; echo ""; echo "Press Enter to close..."; read''\<close>

definition build_terminal_cmd :: "string \<Rightarrow> string \<Rightarrow> string \<Rightarrow> bool \<Rightarrow> string list" where
  "build_terminal_cmd terminal title shell_cmd wait =
     (let full_cmd = (if wait then shell_cmd @ wait_suffix else shell_cmd)
      in if terminal = ''kitty'' then [terminal, ''--title'', title, ''sh'', ''-c'', full_cmd]
         else if terminal = ''foot'' then [terminal, ''--title'', title, ''sh'', ''-c'', full_cmd]
         else if terminal = ''alacritty'' then
           [terminal, ''--title'', title, ''-e'', ''sh'', ''-c'', full_cmd]
         else if terminal = ''wezterm'' then [terminal, ''start'', ''--'', ''sh'', ''-c'', full_cmd]
         else if terminal = ''gnome-terminal'' then
           [terminal, ''--title='' @ title, ''--wait'', ''--'', ''sh'', ''-c'', full_cmd]
         else if terminal = ''konsole'' then
           [terminal, ''--title'', title, ''-e'', ''sh'', ''-c'', full_cmd]
         else [terminal, ''-e'', ''sh'', ''-c'', full_cmd])"

subsection \<open>Configuration loader (lines 131--145)\<close>

text \<open>
  The file system as \<open>load_config\<close> sees it: \<^verbatim>\<open>os.path.isfile\<close>, and the outcome of
  opening a path, reading it and running \<^verbatim>\<open>yaml.safe_load\<close> on it: the exception raised
  (\<open>Inl\<close>) or the parsed document (\<open>Inr\<close>; an empty document parses to \<^verbatim>\<open>None\<close>).
\<close>

record filesystem =
  isfile :: "string \<Rightarrow> bool"
  open_safe_load :: "string \<Rightarrow> exn + yaml"

definition error_config :: "string \<Rightarrow> yaml" where
  "error_config message =
     YMap [(YStr ''pages'', YList [YMap
       [(YStr ''name'', YStr ''Error''),
        (YStr ''groups'', YList [YMap
          [(YStr ''title'', YStr ''Error''),
           (YStr ''items'', YList [YMap
             [(YStr ''title'', YStr ''Config Error''),
              (YStr ''description'', YStr message)]])]])]])]"

text \<open>
  \<open>load_config\<close> returns \<open>Inr\<close> of the configuration; \<open>Inl\<close> would be an exception leaving
  it. \<open>script_dir\<close> is \<^verbatim>\<open>get_script_dir()\<close>.
\<close>

definition load_config :: "filesystem \<Rightarrow> string \<Rightarrow> exn + yaml" where
  "load_config fs script_dir =
     (let config_path = path_join script_dir CONFIG_FILENAME
      in if \<not> isfile fs config_path then
           Inr (error_config (''Config file missing: '' @ CONFIG_FILENAME))
         else
           (case open_safe_load fs config_path of
              Inr data \<Rightarrow> Inr (if truthy data then data else YMap [(YStr ''pages'', YList [])])
            | Inl e \<Rightarrow> Inr (error_config (msg e))))"

subsection \<open>Command dispatcher (lines 212--275)\<close>

datatype stream = INHERIT | DEVNULL

datatype popen_argv = ArgList "string list" | ArgStr string

text \<open>One call of \<^verbatim>\<open>subprocess.Popen\<close>, with the keyword arguments the program sets.\<close>

record popen_call =
  popen_args :: popen_argv
  shell :: bool
  start_new_session :: bool
  stdin :: stream
  stdout :: stream
  stderr :: stream

text \<open>
  The calls to the outside, in order. \<open>PrintExec\<close> is the \<^verbatim>\<open>print\<close> of line 232, with the
  three values it interpolates kept apart.
\<close>

datatype event =
    Expandvars string
  | PrintExec string yaml yaml
  | Print string
  | Popen popen_call

text \<open>The application object: \<^verbatim>\<open>self.config\<close> and \<^verbatim>\<open>self._terminal\<close>.\<close>

record app =
  self_config :: yaml
  self_terminal :: "string option"

text \<open>
  \<open>spawn_process\<close> and \<open>spawn_terminal\<close> return their events and the exception
  \<^verbatim>\<open>Popen\<close> raised, if any; \<open>popen\<close> tells whether a call raises.
\<close>

definition spawn_process ::
  "(popen_call \<Rightarrow> exn option) \<Rightarrow> string \<Rightarrow> yaml \<Rightarrow> event list \<times> exn option" where
  "spawn_process popen cmd wrap_uwsm =
     (let argv = (if truthy wrap_uwsm then ArgList [''uwsm-app'', ''--'', ''sh'', ''-c'', cmd]
                  else ArgStr cmd);
          use_shell = (\<not> truthy wrap_uwsm);
          call = \<lparr>popen_args = argv, shell = use_shell, start_new_session = True,
                  stdin = DEVNULL, stdout = DEVNULL, stderr = DEVNULL\<rparr>
      in ([Popen call], popen call))"

definition spawn_terminal ::
  "app \<Rightarrow> (popen_call \<Rightarrow> exn option) \<Rightarrow> string \<Rightarrow> event list \<times> exn option" where
  "spawn_terminal self popen cmd =
     (if \<not> truthy_opt (self_terminal self) then
        (let (evs, raised) = spawn_process popen cmd (YBool True)
         in (Print ''No terminal found, running in background.'' # evs, raised))
      else
        (let term_args = build_terminal_cmd (the (self_terminal self)) APP_TITLE cmd True;
             final_args = [''uwsm-app'', ''--''] @ term_args;
             call = \<lparr>popen_args = ArgList final_args, shell = False, start_new_session = True,
                     stdin = DEVNULL, stdout = DEVNULL, stderr = DEVNULL\<rparr>
         in ([Popen call], popen call)))"

text \<open>Lines 224--230: the wrap flag after the double-wrapping check.\<close>

definition effective_use_uwsm :: "(yaml \<times> yaml) list \<Rightarrow> string \<Rightarrow> yaml" where
  "effective_use_uwsm item_data expanded_cmd =
     (let config_uwsm = dict_get item_data (YStr ''use_uwsm'') (YBool True)
      in if str_contains expanded_cmd ''uwsm-app'' then YBool False else config_uwsm)"

text \<open>
  The click handler. A \<open>command\<close> that is not a string has no \<^verbatim>\<open>strip\<close>: the
  \<^verbatim>\<open>AttributeError\<close> is raised outside the \<^verbatim>\<open>try\<close> and leaves the handler.
\<close>

definition on_run_clicked ::
  "app \<Rightarrow> (string \<Rightarrow> string) \<Rightarrow> (popen_call \<Rightarrow> exn option) \<Rightarrow> (yaml \<times> yaml) list
     \<Rightarrow> event list \<times> exn option" where
  "on_run_clicked self expandvars popen item_data =
     (case dict_get item_data (YStr ''command'') (YStr []) of
        YStr command \<Rightarrow>
          if strip command = [] then ([], None)
          else
            (let expanded_cmd = expandvars command;
                 use_terminal = dict_get item_data (YStr ''terminal'') (YBool False);
                 use_uwsm = effective_use_uwsm item_data expanded_cmd;
                 pre = [Expandvars command, PrintExec expanded_cmd use_terminal use_uwsm];
                 (evs, raised) =
                   (if truthy use_terminal then spawn_terminal self popen expanded_cmd
                    else spawn_process popen expanded_cmd use_uwsm)
             in (case raised of
                   None \<Rightarrow> (pre @ evs, None)
                 | Some e \<Rightarrow> (pre @ evs @ [Print (''Error: '' @ msg e)], None)))
      | v \<Rightarrow>
          ([], Some (Exn ''AttributeError''
             ([CHR 0x27] @ type_name v @ '' object has no attribute '' @ [CHR 0x27] @ ''strip'' @ [CHR 0x27]))))"

text \<open>\<open>do_startup\<close>: the configuration and the terminal are resolved once (lines 153--156).\<close>

definition do_startup ::
  "filesystem \<Rightarrow> string \<Rightarrow> (string \<Rightarrow> string option) \<Rightarrow> exn + app" where
  "do_startup fs script_dir which =
     (case load_config fs script_dir of
        Inl e \<Rightarrow> Inl e
      | Inr cfg \<Rightarrow> Inr \<lparr>self_config = cfg, self_terminal = find_terminal which\<rparr>)"

section \<open>Properties\<close>

subsection \<open>Auxiliary facts\<close>

lemma strip_empty_iff: "strip s = [] \<longleftrightarrow> (\<forall>c\<in>set s. isspace c)"
proof
  assume "strip s = []"
  then have all_rest: "\<forall>c\<in>set (dropWhile isspace s). isspace c"
    by (simp add: strip_def)
  have "dropWhile isspace s = []"
  proof (rule ccontr)
    assume ne: "dropWhile isspace s \<noteq> []"
    then have "\<not> isspace (hd (dropWhile isspace s))" by (rule hd_dropWhile)
    moreover from ne have "hd (dropWhile isspace s) \<in> set (dropWhile isspace s)" by simp
    ultimately show False using all_rest by blast
  qed
  then show "\<forall>c\<in>set s. isspace c" by simp
next
  assume "\<forall>c\<in>set s. isspace c"
  then have "dropWhile isspace s = []" by simp
  then show "strip s = []" by (simp only: strip_def rev.simps dropWhile.simps)
qed

lemma first_available_find:
  "first_available which ts = List.find (\<lambda>t. truthy_opt (which t)) ts"
  by (induction ts) simp_all

lemma build_terminal_cmd_tail:
  "\<exists>pre. pre \<noteq> [] \<and> build_terminal_cmd terminal title shell_cmd wait =
     pre @ [''sh'', ''-c'', if wait then shell_cmd @ wait_suffix else shell_cmd]"
  by (simp add: build_terminal_cmd_def Let_def)

lemma find_terminal_Some_nonempty:
  assumes "find_terminal which = Some t"
  shows "t \<noteq> []"
proof -
  from assms have "t \<in> set TERMINALS"
    unfolding find_terminal_def first_available_find find_Some_iff by auto
  then show ?thesis by (auto simp: TERMINALS_def)
qed

lemma error_message_names_file:
  "str_contains (''Config file missing: '' @ CONFIG_FILENAME) CONFIG_FILENAME"
  unfolding str_contains_def by (rule sublist_append_leftI)

lemma spawn_process_eq:
  "spawn_process popen cmd w =
     ([Popen \<lparr>popen_args = (if truthy w then ArgList [''uwsm-app'', ''--'', ''sh'', ''-c'', cmd]
                            else ArgStr cmd),
        shell = (\<not> truthy w), start_new_session = True,
        stdin = DEVNULL, stdout = DEVNULL, stderr = DEVNULL\<rparr>],
      popen \<lparr>popen_args = (if truthy w then ArgList [''uwsm-app'', ''--'', ''sh'', ''-c'', cmd]
                           else ArgStr cmd),
        shell = (\<not> truthy w), start_new_session = True,
        stdin = DEVNULL, stdout = DEVNULL, stderr = DEVNULL\<rparr>)"
  by (simp add: spawn_process_def Let_def)

lemma spawn_terminal_resolved:
  assumes "self_terminal self = Some t" and "t \<noteq> []"
  shows "spawn_terminal self popen cmd =
     ([Popen \<lparr>popen_args = ArgList ([''uwsm-app'', ''--''] @ build_terminal_cmd t APP_TITLE cmd True),
        shell = False, start_new_session = True,
        stdin = DEVNULL, stdout = DEVNULL, stderr = DEVNULL\<rparr>],
      popen \<lparr>popen_args = ArgList ([''uwsm-app'', ''--''] @ build_terminal_cmd t APP_TITLE cmd True),
        shell = False, start_new_session = True,
        stdin = DEVNULL, stdout = DEVNULL, stderr = DEVNULL\<rparr>)"
  using assms by (simp add: spawn_terminal_def Let_def)

lemma spawn_terminal_unresolved:
  assumes "self_terminal self = None"
  shows "spawn_terminal self popen cmd =
     ([Print ''No terminal found, running in background.'',
       Popen \<lparr>popen_args = ArgList [''uwsm-app'', ''--'', ''sh'', ''-c'', cmd],
        shell = False, start_new_session = True,
        stdin = DEVNULL, stdout = DEVNULL, stderr = DEVNULL\<rparr>],
      popen \<lparr>popen_args = ArgList [''uwsm-app'', ''--'', ''sh'', ''-c'', cmd],
        shell = False, start_new_session = True,
        stdin = DEVNULL, stdout = DEVNULL, stderr = DEVNULL\<rparr>)"
  using assms by (simp add: spawn_terminal_def spawn_process_eq)

text \<open>
  The handler on a command that is a string and not blank: the prologue, the branch taken,
  and the \<^verbatim>\<open>except\<close> clause.
\<close>

lemma on_run_clicked_dispatch:
  assumes "dict_get item_data (YStr ''command'') (YStr []) = YStr command"
    and "strip command \<noteq> []"
  shows "on_run_clicked self expandvars popen item_data =
     (let sp = (if truthy (dict_get item_data (YStr ''terminal'') (YBool False))
                then spawn_terminal self popen (expandvars command)
                else spawn_process popen (expandvars command)
                       (effective_use_uwsm item_data (expandvars command)))
      in ([Expandvars command,
           PrintExec (expandvars command) (dict_get item_data (YStr ''terminal'') (YBool False))
             (effective_use_uwsm item_data (expandvars command))]
          @ fst sp
          @ (case snd sp of None \<Rightarrow> [] | Some e \<Rightarrow> [Print (''Error: '' @ msg e)]), None))"
  using assms by (simp add: on_run_clicked_def Let_def split: prod.split option.split)

lemma on_run_clicked_blank:
  assumes "dict_get item_data (YStr ''command'') (YStr []) = YStr command"
    and "strip command = []"
  shows "on_run_clicked self expandvars popen item_data = ([], None)"
  using assms by (simp add: on_run_clicked_def)

lemma on_run_clicked_not_str:
  assumes "\<forall>c. dict_get item_data (YStr ''command'') (YStr []) \<noteq> YStr c"
  shows "fst (on_run_clicked self expandvars popen item_data) = []"
  using assms by (simp add: on_run_clicked_def split: yaml.split)

lemma do_startup_terminal:
  assumes "do_startup fs script_dir which = Inr self"
  shows "self_terminal self = find_terminal which"
  using assms by (auto simp: do_startup_def split: sum.splits)

subsection \<open>Terminal resolver\<close>

text \<open>
  C4. For each of the seven names of \<open>TERMINALS\<close>, and every title, shell command and
  wait flag, the argument list of \<open>build_terminal_cmd\<close> ends with \<^verbatim>\<open>sh\<close>, \<^verbatim>\<open>-c\<close> and the
  command string; with \<open>wait\<close> set, the command string is the shell command followed, in
  the same string, by an empty echo, the "Press Enter to close..." echo and \<^verbatim>\<open>read\<close>.
\<close>

theorem build_terminal_cmd_sh_c_tail:
  assumes "terminal \<in> set TERMINALS"
  shows \<open>3 \<le> length (build_terminal_cmd terminal title shell_cmd wait) \<and>
     drop (length (build_terminal_cmd terminal title shell_cmd wait) - 3)
          (build_terminal_cmd terminal title shell_cmd wait) =
       [''sh'', ''-c'',
        if wait then shell_cmd @ ''; echo ""; echo "Press Enter to close..."; read''
        else shell_cmd]\<close>
proof -
  obtain pre where
    "build_terminal_cmd terminal title shell_cmd wait =
       pre @ [''sh'', ''-c'', if wait then shell_cmd @ wait_suffix else shell_cmd]"
    using build_terminal_cmd_tail by blast
  then show ?thesis by (simp add: wait_suffix_def)
qed

theorem build_terminal_cmd_sh_c_tail_witness:
  \<open>''gnome-terminal'' \<in> set TERMINALS \<and>
   build_terminal_cmd ''gnome-terminal'' ''T'' ''ls'' True =
     [''gnome-terminal'', ''--title=T'', ''--wait'', ''--'', ''sh'', ''-c'',
      ''ls; echo ""; echo "Press Enter to close..."; read''] \<and>
   drop (length (build_terminal_cmd ''gnome-terminal'' ''T'' ''ls'' True) - 3)
        (build_terminal_cmd ''gnome-terminal'' ''T'' ''ls'' True) =
     [''sh'', ''-c'', ''ls; echo ""; echo "Press Enter to close..."; read'']\<close>
proof -
  have mem: "''gnome-terminal'' \<in> set TERMINALS" by (simp add: TERMINALS_def)
  have val: \<open>build_terminal_cmd ''gnome-terminal'' ''T'' ''ls'' True =
     [''gnome-terminal'', ''--title=T'', ''--wait'', ''--'', ''sh'', ''-c'',
      ''ls; echo ""; echo "Press Enter to close..."; read'']\<close>
    by (simp add: build_terminal_cmd_def wait_suffix_def)
  from build_terminal_cmd_sh_c_tail [OF mem, of "''T''" "''ls''" True] mem val
  show ?thesis by simp
qed

text \<open>
  C5. \<open>find_terminal\<close> returns the earliest name of the seven-element preference order
  that \<^verbatim>\<open>shutil.which\<close> resolves: the name at some position, resolvable, with no
  resolvable name before it. It returns \<^verbatim>\<open>None\<close> exactly when none of the seven resolves.
\<close>

theorem find_terminal_earliest:
  "TERMINALS = [''kitty'', ''foot'', ''alacritty'', ''wezterm'', ''gnome-terminal'',
     ''konsole'', ''xfce4-terminal''] \<and>
   (find_terminal which = Some t \<longleftrightarrow>
      (\<exists>i<length TERMINALS. TERMINALS ! i = t \<and> truthy_opt (which t) \<and>
         (\<forall>j<i. \<not> truthy_opt (which (TERMINALS ! j))))) \<and>
   (find_terminal which = None \<longleftrightarrow> (\<forall>t\<in>set TERMINALS. \<not> truthy_opt (which t)))"
proof (intro conjI)
  show "TERMINALS = [''kitty'', ''foot'', ''alacritty'', ''wezterm'', ''gnome-terminal'',
     ''konsole'', ''xfce4-terminal'']" by (simp add: TERMINALS_def)
  show "find_terminal which = Some t \<longleftrightarrow>
      (\<exists>i<length TERMINALS. TERMINALS ! i = t \<and> truthy_opt (which t) \<and>
         (\<forall>j<i. \<not> truthy_opt (which (TERMINALS ! j))))"
    unfolding find_terminal_def first_available_find find_Some_iff by blast
  show "find_terminal which = None \<longleftrightarrow> (\<forall>t\<in>set TERMINALS. \<not> truthy_opt (which t))"
    unfolding find_terminal_def first_available_find find_None_iff by blast
qed

theorem find_terminal_earliest_witness:
  "find_terminal (\<lambda>t. if t = ''foot'' \<or> t = ''konsole'' then Some (''/usr/bin/'' @ t) else None)
     = Some ''foot'' \<and>
   find_terminal (\<lambda>t. None) = None"
proof
  let ?w = "\<lambda>t. if t = ''foot'' \<or> t = ''konsole'' then Some (''/usr/bin/'' @ t) else None"
  have "\<exists>i<length TERMINALS. TERMINALS ! i = ''foot'' \<and> truthy_opt (?w ''foot'') \<and>
          (\<forall>j<i. \<not> truthy_opt (?w (TERMINALS ! j)))"
    by (rule exI [of _ 1]) (simp add: TERMINALS_def)
  with find_terminal_earliest [of ?w "''foot''", THEN conjunct2, THEN conjunct1]
  show "find_terminal ?w = Some ''foot''" by (rule iffD2)
next
  have "\<forall>t\<in>set TERMINALS. \<not> truthy_opt ((\<lambda>t. None) t)" by simp
  with find_terminal_earliest [of "\<lambda>t. None", THEN conjunct2, THEN conjunct2]
  show "find_terminal (\<lambda>t. None) = None" by (rule iffD2)
qed

subsection \<open>Configuration loader\<close>

text \<open>
  C6. \<open>load_config\<close> never lets an exception out: it returns a configuration. When the
  file is missing, and when opening, reading or parsing it raises, the configuration is
  the synthetic one: one page named "Error", holding one group, holding one item whose
  description is the failure message. For the missing file the message contains
  \<open>CONFIG_FILENAME\<close>.
\<close>

theorem load_config_fails_soft:
  "(\<exists>cfg. load_config fs script_dir = Inr cfg) \<and>
   (\<not> isfile fs (path_join script_dir CONFIG_FILENAME) \<longrightarrow>
      load_config fs script_dir =
        Inr (YMap [(YStr ''pages'', YList [YMap
          [(YStr ''name'', YStr ''Error''),
           (YStr ''groups'', YList [YMap
             [(YStr ''title'', YStr ''Error''),
              (YStr ''items'', YList [YMap
                [(YStr ''title'', YStr ''Config Error''),
                 (YStr ''description'', YStr ''Config file missing: dusky_config.yaml'')]])]])]])]) \<and>
      str_contains ''Config file missing: dusky_config.yaml'' CONFIG_FILENAME) \<and>
   (isfile fs (path_join script_dir CONFIG_FILENAME) \<and>
    open_safe_load fs (path_join script_dir CONFIG_FILENAME) = Inl e \<longrightarrow>
      load_config fs script_dir =
        Inr (YMap [(YStr ''pages'', YList [YMap
          [(YStr ''name'', YStr ''Error''),
           (YStr ''groups'', YList [YMap
             [(YStr ''title'', YStr ''Error''),
              (YStr ''items'', YList [YMap
                [(YStr ''title'', YStr ''Config Error''),
                 (YStr ''description'', YStr (msg e))]])]])]])]))"
proof (intro conjI impI)
  show "\<exists>cfg. load_config fs script_dir = Inr cfg"
    by (simp add: load_config_def Let_def split: sum.split)
next
  assume "\<not> isfile fs (path_join script_dir CONFIG_FILENAME)"
  then show "load_config fs script_dir =
        Inr (YMap [(YStr ''pages'', YList [YMap
          [(YStr ''name'', YStr ''Error''),
           (YStr ''groups'', YList [YMap
             [(YStr ''title'', YStr ''Error''),
              (YStr ''items'', YList [YMap
                [(YStr ''title'', YStr ''Config Error''),
                 (YStr ''description'', YStr ''Config file missing: dusky_config.yaml'')]])]])]])])"
    by (simp add: load_config_def Let_def error_config_def CONFIG_FILENAME_def)
next
  show "str_contains ''Config file missing: dusky_config.yaml'' CONFIG_FILENAME"
    using error_message_names_file by (simp add: CONFIG_FILENAME_def)
next
  assume "isfile fs (path_join script_dir CONFIG_FILENAME) \<and>
    open_safe_load fs (path_join script_dir CONFIG_FILENAME) = Inl e"
  then show "load_config fs script_dir =
        Inr (YMap [(YStr ''pages'', YList [YMap
          [(YStr ''name'', YStr ''Error''),
           (YStr ''groups'', YList [YMap
             [(YStr ''title'', YStr ''Error''),
              (YStr ''items'', YList [YMap
                [(YStr ''title'', YStr ''Config Error''),
                 (YStr ''description'', YStr (msg e))]])]])]])])"
    by (simp add: load_config_def Let_def error_config_def)
qed

theorem load_config_fails_soft_witness:
  "load_config \<lparr>isfile = (\<lambda>p. False), open_safe_load = (\<lambda>p. Inr YNull)\<rparr> ''/opt/dusky'' =
     Inr (YMap [(YStr ''pages'', YList [YMap
       [(YStr ''name'', YStr ''Error''),
        (YStr ''groups'', YList [YMap
          [(YStr ''title'', YStr ''Error''),
           (YStr ''items'', YList [YMap
             [(YStr ''title'', YStr ''Config Error''),
              (YStr ''description'', YStr ''Config file missing: dusky_config.yaml'')]])]])]])]) \<and>
   load_config \<lparr>isfile = (\<lambda>p. p = ''/opt/dusky/dusky_config.yaml''),
       open_safe_load = (\<lambda>p. Inl (Exn ''ScannerError'' ''mapping values are not allowed here''))\<rparr>
     ''/opt/dusky'' =
     Inr (YMap [(YStr ''pages'', YList [YMap
       [(YStr ''name'', YStr ''Error''),
        (YStr ''groups'', YList [YMap
          [(YStr ''title'', YStr ''Error''),
           (YStr ''items'', YList [YMap
             [(YStr ''title'', YStr ''Config Error''),
              (YStr ''description'', YStr ''mapping values are not allowed here'')]])]])]])])"
proof
  let ?fs = "\<lparr>isfile = (\<lambda>p. False), open_safe_load = (\<lambda>p. Inr YNull)\<rparr>"
  have "\<not> isfile ?fs (path_join ''/opt/dusky'' CONFIG_FILENAME)" by simp
  with load_config_fails_soft [of ?fs "''/opt/dusky''", THEN conjunct2, THEN conjunct1]
  show "load_config ?fs ''/opt/dusky'' =
     Inr (YMap [(YStr ''pages'', YList [YMap
       [(YStr ''name'', YStr ''Error''),
        (YStr ''groups'', YList [YMap
          [(YStr ''title'', YStr ''Error''),
           (YStr ''items'', YList [YMap
             [(YStr ''title'', YStr ''Config Error''),
              (YStr ''description'', YStr ''Config file missing: dusky_config.yaml'')]])]])]])])"
    by blast
next
  let ?e = "Exn ''ScannerError'' ''mapping values are not allowed here''"
  let ?fs = "\<lparr>isfile = (\<lambda>p. p = ''/opt/dusky/dusky_config.yaml''),
       open_safe_load = (\<lambda>p. Inl ?e)\<rparr>"
  have "isfile ?fs (path_join ''/opt/dusky'' CONFIG_FILENAME) \<and>
    open_safe_load ?fs (path_join ''/opt/dusky'' CONFIG_FILENAME) = Inl ?e"
    by (simp add: path_join_def CONFIG_FILENAME_def)
  with load_config_fails_soft [of ?fs "''/opt/dusky''" ?e, THEN conjunct2, THEN conjunct2]
  show "load_config ?fs ''/opt/dusky'' =
     Inr (YMap [(YStr ''pages'', YList [YMap
       [(YStr ''name'', YStr ''Error''),
        (YStr ''groups'', YList [YMap
          [(YStr ''title'', YStr ''Error''),
           (YStr ''items'', YList [YMap
             [(YStr ''title'', YStr ''Config Error''),
              (YStr ''description'', YStr ''mapping values are not allowed here'')]])]])]])])"
    by simp
qed

text \<open>
  C7. When the file exists and parses to an empty document (\<^verbatim>\<open>None\<close>), \<open>load_config\<close>
  returns \<^verbatim>\<open>{"pages": []}\<close>.
\<close>

theorem load_config_empty_document:
  assumes "isfile fs (path_join script_dir CONFIG_FILENAME)"
    and "open_safe_load fs (path_join script_dir CONFIG_FILENAME) = Inr YNull"
  shows "load_config fs script_dir = Inr (YMap [(YStr ''pages'', YList [])])"
  using assms by (simp add: load_config_def Let_def)

theorem load_config_empty_document_witness:
  "load_config \<lparr>isfile = (\<lambda>p. p = ''/opt/dusky/dusky_config.yaml''),
       open_safe_load = (\<lambda>p. Inr YNull)\<rparr> ''/opt/dusky'' =
     Inr (YMap [(YStr ''pages'', YList [])])"
proof -
  let ?fs = "\<lparr>isfile = (\<lambda>p. p = ''/opt/dusky/dusky_config.yaml''),
       open_safe_load = (\<lambda>p. Inr YNull)\<rparr>"
  have a: "isfile ?fs (path_join ''/opt/dusky'' CONFIG_FILENAME)"
    by (simp add: path_join_def CONFIG_FILENAME_def)
  have b: "open_safe_load ?fs (path_join ''/opt/dusky'' CONFIG_FILENAME) = Inr YNull"
    by simp
  from load_config_empty_document [OF a b] show ?thesis .
qed

text \<open>
  C10. The substitution is by truthiness: every parsed document that is falsy, among them
  the empty mapping, the empty list, \<^verbatim>\<open>False\<close> and \<^verbatim>\<open>0\<close>, yields \<^verbatim>\<open>{"pages": []}\<close> and
  not the parsed value.
\<close>

theorem load_config_falsy_document:
  assumes "isfile fs (path_join script_dir CONFIG_FILENAME)"
    and "open_safe_load fs (path_join script_dir CONFIG_FILENAME) = Inr data"
    and "\<not> truthy data"
  shows "load_config fs script_dir = Inr (YMap [(YStr ''pages'', YList [])]) \<and>
    \<not> truthy (YMap []) \<and> \<not> truthy (YList []) \<and> \<not> truthy (YBool False) \<and> \<not> truthy (YInt 0)"
  using assms by (simp add: load_config_def Let_def)

theorem load_config_falsy_document_witness:
  "(let fs = \<lparr>isfile = (\<lambda>p. p = ''/opt/dusky/dusky_config.yaml''),
               open_safe_load = (\<lambda>p. Inr (YMap []))\<rparr>
    in load_config fs ''/opt/dusky'' = Inr (YMap [(YStr ''pages'', YList [])]) \<and>
       load_config fs ''/opt/dusky'' \<noteq> open_safe_load fs ''/opt/dusky/dusky_config.yaml'') \<and>
   load_config \<lparr>isfile = (\<lambda>p. p = ''/opt/dusky/dusky_config.yaml''),
       open_safe_load = (\<lambda>p. Inr (YInt 0))\<rparr> ''/opt/dusky'' =
     Inr (YMap [(YStr ''pages'', YList [])])"
proof -
  let ?fs = "\<lparr>isfile = (\<lambda>p. p = ''/opt/dusky/dusky_config.yaml''),
       open_safe_load = (\<lambda>p. Inr (YMap []))\<rparr>"
  let ?gs = "\<lparr>isfile = (\<lambda>p. p = ''/opt/dusky/dusky_config.yaml''),
       open_safe_load = (\<lambda>p. Inr (YInt 0))\<rparr>"
  have a: "isfile ?fs (path_join ''/opt/dusky'' CONFIG_FILENAME)"
    and a0: "isfile ?gs (path_join ''/opt/dusky'' CONFIG_FILENAME)"
    by (simp_all add: path_join_def CONFIG_FILENAME_def)
  have b: "open_safe_load ?fs (path_join ''/opt/dusky'' CONFIG_FILENAME) = Inr (YMap [])"
    and b0: "open_safe_load ?gs (path_join ''/opt/dusky'' CONFIG_FILENAME) = Inr (YInt 0)"
    by simp_all
  have c: "\<not> truthy (YMap [])" and c0: "\<not> truthy (YInt 0)" by simp_all
  have r: "load_config ?fs ''/opt/dusky'' = Inr (YMap [(YStr ''pages'', YList [])])"
    using load_config_falsy_document [OF a b c] by (rule conjunct1)
  have r0: "load_config ?gs ''/opt/dusky'' = Inr (YMap [(YStr ''pages'', YList [])])"
    using load_config_falsy_document [OF a0 b0 c0] by (rule conjunct1)
  have ne: "load_config ?fs ''/opt/dusky'' \<noteq> open_safe_load ?fs ''/opt/dusky/dusky_config.yaml''"
    unfolding r by simp
  show ?thesis unfolding Let_def using r r0 ne by (intro conjI)
qed

subsection \<open>Command dispatcher\<close>

text \<open>
  C8. When the item has no \<open>command\<close>, or its command string is empty or only whitespace,
  the click handler returns with no event at all: no call of \<^verbatim>\<open>os.path.expandvars\<close>, no
  \<^verbatim>\<open>print\<close>, no \<^verbatim>\<open>Popen\<close>.
\<close>

theorem blank_command_no_spawn:
  assumes "map_of item_data (YStr ''command'') = None \<or>
    (\<exists>c. map_of item_data (YStr ''command'') = Some (YStr c) \<and> (\<forall>ch\<in>set c. isspace ch))"
  shows "on_run_clicked self expandvars popen item_data = ([], None)"
proof -
  from assms obtain c where
    c: "dict_get item_data (YStr ''command'') (YStr []) = YStr c" "\<forall>ch\<in>set c. isspace ch"
    by (auto simp: dict_get_def)
  from c(2) have "strip c = []" by (simp add: strip_empty_iff)
  with c(1) show ?thesis by (rule on_run_clicked_blank)
qed

theorem blank_command_no_spawn_witness:
  "on_run_clicked \<lparr>self_config = YNull, self_terminal = Some ''kitty''\<rparr> (\<lambda>s. s) (\<lambda>c. None)
     [(YStr ''title'', YStr ''Nothing'')] = ([], None) \<and>
   on_run_clicked \<lparr>self_config = YNull, self_terminal = Some ''kitty''\<rparr> (\<lambda>s. s) (\<lambda>c. None)
     [(YStr ''command'', YStr '''')] = ([], None) \<and>
   on_run_clicked \<lparr>self_config = YNull, self_terminal = Some ''kitty''\<rparr> (\<lambda>s. s) (\<lambda>c. None)
     [(YStr ''command'', YStr [CHR '' '', CHR 0x09, CHR 0x0A]), (YStr ''terminal'', YBool True)]
     = ([], None)"
proof (intro conjI)
  let ?self = "\<lparr>self_config = YNull, self_terminal = Some ''kitty''\<rparr>"
  have "map_of [(YStr ''title'', YStr ''Nothing'')] (YStr ''command'') = None" by simp
  then show "on_run_clicked ?self (\<lambda>s. s) (\<lambda>c. None) [(YStr ''title'', YStr ''Nothing'')] = ([], None)"
    by (intro blank_command_no_spawn disjI1)
next
  let ?self = "\<lparr>self_config = YNull, self_terminal = Some ''kitty''\<rparr>"
  have "\<exists>c. map_of [(YStr ''command'', YStr '''')] (YStr ''command'') = Some (YStr c) \<and>
    (\<forall>ch\<in>set c. isspace ch)" by simp
  then show "on_run_clicked ?self (\<lambda>s. s) (\<lambda>c. None) [(YStr ''command'', YStr '''')] = ([], None)"
    by (intro blank_command_no_spawn disjI2)
next
  let ?self = "\<lparr>self_config = YNull, self_terminal = Some ''kitty''\<rparr>"
  let ?item = "[(YStr ''command'', YStr [CHR '' '', CHR 0x09, CHR 0x0A]), (YStr ''terminal'', YBool True)]"
  have "\<exists>c. map_of ?item (YStr ''command'') = Some (YStr c) \<and> (\<forall>ch\<in>set c. isspace ch)"
    by (simp add: isspace_def)
  then show "on_run_clicked ?self (\<lambda>s. s) (\<lambda>c. None) ?item = ([], None)"
    by (intro blank_command_no_spawn disjI2)
qed

text \<open>
  C3. For a clicked item with a command, the wrap flag is \<^verbatim>\<open>False\<close> when the expanded
  command contains \<^verbatim>\<open>uwsm-app\<close>, whatever the item's \<open>use_uwsm\<close>; otherwise it is the
  item's \<open>use_uwsm\<close>, \<^verbatim>\<open>True\<close> when the key is absent. The handler reports this value
  and, in the background branch, spawns according to it.
\<close>

theorem effective_use_uwsm_forced:
  assumes "dict_get item_data (YStr ''command'') (YStr []) = YStr command"
    and "strip command \<noteq> []"
  shows "(str_contains (expandvars command) ''uwsm-app'' \<longrightarrow>
            effective_use_uwsm item_data (expandvars command) = YBool False) \<and>
    (\<not> str_contains (expandvars command) ''uwsm-app'' \<longrightarrow>
            effective_use_uwsm item_data (expandvars command) =
              (case map_of item_data (YStr ''use_uwsm'') of None \<Rightarrow> YBool True | Some v \<Rightarrow> v)) \<and>
    take 2 (fst (on_run_clicked self expandvars popen item_data)) =
      [Expandvars command,
       PrintExec (expandvars command) (dict_get item_data (YStr ''terminal'') (YBool False))
         (effective_use_uwsm item_data (expandvars command))] \<and>
    (\<not> truthy (dict_get item_data (YStr ''terminal'') (YBool False)) \<longrightarrow>
       fst (on_run_clicked self expandvars popen item_data) ! 2 =
         Popen \<lparr>popen_args =
                  (if truthy (effective_use_uwsm item_data (expandvars command))
                   then ArgList [''uwsm-app'', ''--'', ''sh'', ''-c'', expandvars command]
                   else ArgStr (expandvars command)),
                shell = (\<not> truthy (effective_use_uwsm item_data (expandvars command))),
                start_new_session = True,
                stdin = DEVNULL, stdout = DEVNULL, stderr = DEVNULL\<rparr>)"
proof (intro conjI impI)
  assume "str_contains (expandvars command) ''uwsm-app''"
  then show "effective_use_uwsm item_data (expandvars command) = YBool False"
    by (simp add: effective_use_uwsm_def)
next
  assume "\<not> str_contains (expandvars command) ''uwsm-app''"
  then show "effective_use_uwsm item_data (expandvars command) =
      (case map_of item_data (YStr ''use_uwsm'') of None \<Rightarrow> YBool True | Some v \<Rightarrow> v)"
    by (simp add: effective_use_uwsm_def dict_get_def)
next
  show "take 2 (fst (on_run_clicked self expandvars popen item_data)) =
      [Expandvars command,
       PrintExec (expandvars command) (dict_get item_data (YStr ''terminal'') (YBool False))
         (effective_use_uwsm item_data (expandvars command))]"
    by (simp add: on_run_clicked_dispatch [OF assms] Let_def)
next
  assume "\<not> truthy (dict_get item_data (YStr ''terminal'') (YBool False))"
  then show "fst (on_run_clicked self expandvars popen item_data) ! 2 =
         Popen \<lparr>popen_args =
                  (if truthy (effective_use_uwsm item_data (expandvars command))
                   then ArgList [''uwsm-app'', ''--'', ''sh'', ''-c'', expandvars command]
                   else ArgStr (expandvars command)),
                shell = (\<not> truthy (effective_use_uwsm item_data (expandvars command))),
                start_new_session = True,
                stdin = DEVNULL, stdout = DEVNULL, stderr = DEVNULL\<rparr>"
    by (simp add: on_run_clicked_dispatch [OF assms] spawn_process_eq Let_def)
qed

theorem effective_use_uwsm_forced_witness:
  "effective_use_uwsm [(YStr ''command'', YStr ''uwsm-app -- foot''), (YStr ''use_uwsm'', YBool True)]
     ''uwsm-app -- foot'' = YBool False \<and>
   effective_use_uwsm [(YStr ''command'', YStr ''foot'')] ''foot'' = YBool True \<and>
   effective_use_uwsm [(YStr ''command'', YStr ''foot''), (YStr ''use_uwsm'', YBool False)] ''foot''
     = YBool False \<and>
   fst (on_run_clicked \<lparr>self_config = YNull, self_terminal = None\<rparr> (\<lambda>s. s) (\<lambda>c. None)
     [(YStr ''command'', YStr ''uwsm-app -- foot''), (YStr ''use_uwsm'', YBool True)]) ! 2 =
     Popen \<lparr>popen_args = ArgStr ''uwsm-app -- foot'',
            shell = True, start_new_session = True,
            stdin = DEVNULL, stdout = DEVNULL, stderr = DEVNULL\<rparr>"
proof (intro conjI)
  let ?self = "\<lparr>self_config = YNull, self_terminal = None\<rparr>"
  let ?item = "[(YStr ''command'', YStr ''uwsm-app -- foot''), (YStr ''use_uwsm'', YBool True)]"
  have a1: "dict_get ?item (YStr ''command'') (YStr []) = YStr ''uwsm-app -- foot''"
    by (simp add: dict_get_def)
  have a2: "strip ''uwsm-app -- foot'' \<noteq> []" by (simp add: strip_def isspace_def)
  have has: "str_contains ''uwsm-app -- foot'' ''uwsm-app''"
    by (simp add: str_contains_def sublist_Cons_right)
  note th = effective_use_uwsm_forced [OF a1 a2, of "\<lambda>s. s" ?self "\<lambda>c. None"]
  from th has show eff: "effective_use_uwsm ?item ''uwsm-app -- foot'' = YBool False"
    by simp
  from th show "fst (on_run_clicked ?self (\<lambda>s. s) (\<lambda>c. None) ?item) ! 2 =
     Popen \<lparr>popen_args = ArgStr ''uwsm-app -- foot'',
            shell = True, start_new_session = True,
            stdin = DEVNULL, stdout = DEVNULL, stderr = DEVNULL\<rparr>"
    by (simp add: eff dict_get_def)
next
  let ?item = "[(YStr ''command'', YStr ''foot'')]"
  have a1: "dict_get ?item (YStr ''command'') (YStr []) = YStr ''foot''"
    by (simp add: dict_get_def)
  have a2: "strip ''foot'' \<noteq> []" by (simp add: strip_def isspace_def)
  have hasnt: "\<not> str_contains ''foot'' ''uwsm-app''"
    by (simp add: str_contains_def sublist_Cons_right)
  from effective_use_uwsm_forced [OF a1 a2, of "\<lambda>s. s" "\<lparr>self_config = YNull, self_terminal = None\<rparr>" "\<lambda>c. None"] hasnt
  show "effective_use_uwsm ?item ''foot'' = YBool True" by simp
next
  let ?item = "[(YStr ''command'', YStr ''foot''), (YStr ''use_uwsm'', YBool False)]"
  have a1: "dict_get ?item (YStr ''command'') (YStr []) = YStr ''foot''"
    by (simp add: dict_get_def)
  have a2: "strip ''foot'' \<noteq> []" by (simp add: strip_def isspace_def)
  have hasnt: "\<not> str_contains ''foot'' ''uwsm-app''"
    by (simp add: str_contains_def sublist_Cons_right)
  from effective_use_uwsm_forced [OF a1 a2, of "\<lambda>s. s" "\<lparr>self_config = YNull, self_terminal = None\<rparr>" "\<lambda>c. None"] hasnt
  show "effective_use_uwsm ?item ''foot'' = YBool False" by simp
qed

text \<open>
  C2. For an item with a command whose \<open>terminal\<close> is false: when the wrap flag is true
  the handler spawns the argument list \<^verbatim>\<open>uwsm-app -- sh -c\<close> followed by the expanded
  command, without a shell; when it is false it spawns the expanded command string
  through a shell. Either way in a new session with the three standard streams on
  \<^verbatim>\<open>DEVNULL\<close>.
\<close>

theorem background_click_spawn:
  assumes "dict_get item_data (YStr ''command'') (YStr []) = YStr command"
    and "strip command \<noteq> []"
    and "\<not> truthy (dict_get item_data (YStr ''terminal'') (YBool False))"
  shows "(truthy (effective_use_uwsm item_data (expandvars command)) \<longrightarrow>
      (let call = \<lparr>popen_args = ArgList [''uwsm-app'', ''--'', ''sh'', ''-c'', expandvars command],
                    shell = False, start_new_session = True,
                    stdin = DEVNULL, stdout = DEVNULL, stderr = DEVNULL\<rparr>
       in on_run_clicked self expandvars popen item_data =
            ([Expandvars command,
              PrintExec (expandvars command) (dict_get item_data (YStr ''terminal'') (YBool False))
                (effective_use_uwsm item_data (expandvars command)),
              Popen call]
             @ (case popen call of None \<Rightarrow> [] | Some e \<Rightarrow> [Print (''Error: '' @ msg e)]),
             None))) \<and>
    (\<not> truthy (effective_use_uwsm item_data (expandvars command)) \<longrightarrow>
      (let call = \<lparr>popen_args = ArgStr (expandvars command),
                    shell = True, start_new_session = True,
                    stdin = DEVNULL, stdout = DEVNULL, stderr = DEVNULL\<rparr>
       in on_run_clicked self expandvars popen item_data =
            ([Expandvars command,
              PrintExec (expandvars command) (dict_get item_data (YStr ''terminal'') (YBool False))
                (effective_use_uwsm item_data (expandvars command)),
              Popen call]
             @ (case popen call of None \<Rightarrow> [] | Some e \<Rightarrow> [Print (''Error: '' @ msg e)]),
             None)))"
  by (simp add: on_run_clicked_dispatch [OF assms(1,2)] assms(3) spawn_process_eq Let_def)

theorem background_click_spawn_witness:
  "on_run_clicked \<lparr>self_config = YNull, self_terminal = Some ''kitty''\<rparr> (\<lambda>s. s) (\<lambda>c. None)
     [(YStr ''command'', YStr ''echo hi'')] =
     ([Expandvars ''echo hi'', PrintExec ''echo hi'' (YBool False) (YBool True),
       Popen \<lparr>popen_args = ArgList [''uwsm-app'', ''--'', ''sh'', ''-c'', ''echo hi''],
              shell = False, start_new_session = True,
              stdin = DEVNULL, stdout = DEVNULL, stderr = DEVNULL\<rparr>], None) \<and>
   on_run_clicked \<lparr>self_config = YNull, self_terminal = Some ''kitty''\<rparr> (\<lambda>s. s) (\<lambda>c. None)
     [(YStr ''command'', YStr ''echo hi''), (YStr ''use_uwsm'', YBool False)] =
     ([Expandvars ''echo hi'', PrintExec ''echo hi'' (YBool False) (YBool False),
       Popen \<lparr>popen_args = ArgStr ''echo hi'',
              shell = True, start_new_session = True,
              stdin = DEVNULL, stdout = DEVNULL, stderr = DEVNULL\<rparr>], None)"
proof
  let ?self = "\<lparr>self_config = YNull, self_terminal = Some ''kitty''\<rparr>"
  let ?item = "[(YStr ''command'', YStr ''echo hi'')]"
  have a1: "dict_get ?item (YStr ''command'') (YStr []) = YStr ''echo hi''"
    by (simp add: dict_get_def)
  have a2: "strip ''echo hi'' \<noteq> []" by (simp add: strip_def isspace_def)
  have a3: "\<not> truthy (dict_get ?item (YStr ''terminal'') (YBool False))"
    by (simp add: dict_get_def)
  have eff: "effective_use_uwsm ?item ''echo hi'' = YBool True"
    by (simp add: effective_use_uwsm_def dict_get_def str_contains_def sublist_Cons_right)
  from background_click_spawn [OF a1 a2 a3, of "\<lambda>s. s" ?self "\<lambda>c. None"]
  show "on_run_clicked ?self (\<lambda>s. s) (\<lambda>c. None) ?item =
     ([Expandvars ''echo hi'', PrintExec ''echo hi'' (YBool False) (YBool True),
       Popen \<lparr>popen_args = ArgList [''uwsm-app'', ''--'', ''sh'', ''-c'', ''echo hi''],
              shell = False, start_new_session = True,
              stdin = DEVNULL, stdout = DEVNULL, stderr = DEVNULL\<rparr>], None)"
    by (simp add: Let_def eff dict_get_def)
next
  let ?self = "\<lparr>self_config = YNull, self_terminal = Some ''kitty''\<rparr>"
  let ?item = "[(YStr ''command'', YStr ''echo hi''), (YStr ''use_uwsm'', YBool False)]"
  have a1: "dict_get ?item (YStr ''command'') (YStr []) = YStr ''echo hi''"
    by (simp add: dict_get_def)
  have a2: "strip ''echo hi'' \<noteq> []" by (simp add: strip_def isspace_def)
  have a3: "\<not> truthy (dict_get ?item (YStr ''terminal'') (YBool False))"
    by (simp add: dict_get_def)
  have eff: "effective_use_uwsm ?item ''echo hi'' = YBool False"
    by (simp add: effective_use_uwsm_def dict_get_def str_contains_def sublist_Cons_right)
  from background_click_spawn [OF a1 a2 a3, of "\<lambda>s. s" ?self "\<lambda>c. None"]
  show "on_run_clicked ?self (\<lambda>s. s) (\<lambda>c. None) ?item =
     ([Expandvars ''echo hi'', PrintExec ''echo hi'' (YBool False) (YBool False),
       Popen \<lparr>popen_args = ArgStr ''echo hi'',
              shell = True, start_new_session = True,
              stdin = DEVNULL, stdout = DEVNULL, stderr = DEVNULL\<rparr>], None)"
    by (simp add: Let_def eff dict_get_def)
qed

text \<open>
  C1. For an item with a command whose \<open>terminal\<close> is true, clicked in the application
  started by \<open>do_startup\<close>: when \<open>find_terminal\<close> resolved a terminal, the handler
  spawns \<^verbatim>\<open>uwsm-app --\<close> followed by the terminal's invocation of the expanded command
  with \<open>wait\<close> set, whatever the item's \<open>use_uwsm\<close>; when it resolved none, the handler
  spawns the background form with the wrapper forced on.
\<close>

theorem terminal_click_always_wrapped:
  assumes "do_startup fs script_dir which = Inr self"
    and "dict_get item_data (YStr ''command'') (YStr []) = YStr command"
    and "strip command \<noteq> []"
    and "truthy (dict_get item_data (YStr ''terminal'') (YBool False))"
  shows "(find_terminal which = Some t \<longrightarrow>
      (let call = \<lparr>popen_args = ArgList ([''uwsm-app'', ''--'']
                      @ build_terminal_cmd t APP_TITLE (expandvars command) True),
                    shell = False, start_new_session = True,
                    stdin = DEVNULL, stdout = DEVNULL, stderr = DEVNULL\<rparr>
       in on_run_clicked self expandvars popen item_data =
            ([Expandvars command,
              PrintExec (expandvars command) (dict_get item_data (YStr ''terminal'') (YBool False))
                (effective_use_uwsm item_data (expandvars command)),
              Popen call]
             @ (case popen call of None \<Rightarrow> [] | Some e \<Rightarrow> [Print (''Error: '' @ msg e)]),
             None))) \<and>
    (find_terminal which = None \<longrightarrow>
      (let call = \<lparr>popen_args = ArgList [''uwsm-app'', ''--'', ''sh'', ''-c'', expandvars command],
                    shell = False, start_new_session = True,
                    stdin = DEVNULL, stdout = DEVNULL, stderr = DEVNULL\<rparr>
       in on_run_clicked self expandvars popen item_data =
            ([Expandvars command,
              PrintExec (expandvars command) (dict_get item_data (YStr ''terminal'') (YBool False))
                (effective_use_uwsm item_data (expandvars command)),
              Print ''No terminal found, running in background.'',
              Popen call]
             @ (case popen call of None \<Rightarrow> [] | Some e \<Rightarrow> [Print (''Error: '' @ msg e)]),
             None)))"
proof (intro conjI impI)
  note startup = do_startup_terminal [OF assms(1)]
  note dispatch = on_run_clicked_dispatch [OF assms(2,3)]
  {
    assume res: "find_terminal which = Some t"
    with startup have st: "self_terminal self = Some t" by simp
    from res have ne: "t \<noteq> []" by (rule find_terminal_Some_nonempty)
    show "let call = \<lparr>popen_args = ArgList ([''uwsm-app'', ''--'']
                        @ build_terminal_cmd t APP_TITLE (expandvars command) True),
                      shell = False, start_new_session = True,
                      stdin = DEVNULL, stdout = DEVNULL, stderr = DEVNULL\<rparr>
         in on_run_clicked self expandvars popen item_data =
              ([Expandvars command,
                PrintExec (expandvars command) (dict_get item_data (YStr ''terminal'') (YBool False))
                  (effective_use_uwsm item_data (expandvars command)),
                Popen call]
               @ (case popen call of None \<Rightarrow> [] | Some e \<Rightarrow> [Print (''Error: '' @ msg e)]),
               None)"
      by (simp add: dispatch assms(4) spawn_terminal_resolved [OF st ne] Let_def)
  }
  {
    assume "find_terminal which = None"
    with startup have st: "self_terminal self = None" by simp
    show "let call = \<lparr>popen_args = ArgList [''uwsm-app'', ''--'', ''sh'', ''-c'', expandvars command],
                      shell = False, start_new_session = True,
                      stdin = DEVNULL, stdout = DEVNULL, stderr = DEVNULL\<rparr>
         in on_run_clicked self expandvars popen item_data =
              ([Expandvars command,
                PrintExec (expandvars command) (dict_get item_data (YStr ''terminal'') (YBool False))
                  (effective_use_uwsm item_data (expandvars command)),
                Print ''No terminal found, running in background.'',
                Popen call]
               @ (case popen call of None \<Rightarrow> [] | Some e \<Rightarrow> [Print (''Error: '' @ msg e)]),
               None)"
      by (simp add: dispatch assms(4) spawn_terminal_unresolved [OF st] Let_def)
  }
qed

theorem terminal_click_always_wrapped_witness:
  \<open>do_startup \<lparr>isfile = (\<lambda>p. True), open_safe_load = (\<lambda>p. Inr YNull)\<rparr> ''/opt/dusky''
     (\<lambda>t. if t = ''foot'' then Some ''/usr/bin/foot'' else None) =
     Inr \<lparr>self_config = YMap [(YStr ''pages'', YList [])], self_terminal = Some ''foot''\<rparr> \<and>
   on_run_clicked
     \<lparr>self_config = YMap [(YStr ''pages'', YList [])], self_terminal = Some ''foot''\<rparr>
     (\<lambda>s. s) (\<lambda>c. None)
     [(YStr ''command'', YStr ''htop''), (YStr ''terminal'', YBool True),
      (YStr ''use_uwsm'', YBool False)] =
     ([Expandvars ''htop'', PrintExec ''htop'' (YBool True) (YBool False),
       Popen \<lparr>popen_args = ArgList [''uwsm-app'', ''--'', ''foot'', ''--title'',
                  ''Dusky Control Center'', ''sh'', ''-c'',
                  ''htop; echo ""; echo "Press Enter to close..."; read''],
              shell = False, start_new_session = True,
              stdin = DEVNULL, stdout = DEVNULL, stderr = DEVNULL\<rparr>], None) \<and>
   do_startup \<lparr>isfile = (\<lambda>p. True), open_safe_load = (\<lambda>p. Inr YNull)\<rparr> ''/opt/dusky''
     (\<lambda>t. None) =
     Inr \<lparr>self_config = YMap [(YStr ''pages'', YList [])], self_terminal = None\<rparr> \<and>
   on_run_clicked
     \<lparr>self_config = YMap [(YStr ''pages'', YList [])], self_terminal = None\<rparr>
     (\<lambda>s. s) (\<lambda>c. None)
     [(YStr ''command'', YStr ''htop''), (YStr ''terminal'', YBool True),
      (YStr ''use_uwsm'', YBool False)] =
     ([Expandvars ''htop'', PrintExec ''htop'' (YBool True) (YBool False),
       Print ''No terminal found, running in background.'',
       Popen \<lparr>popen_args = ArgList [''uwsm-app'', ''--'', ''sh'', ''-c'', ''htop''],
              shell = False, start_new_session = True,
              stdin = DEVNULL, stdout = DEVNULL, stderr = DEVNULL\<rparr>], None)\<close>
proof -
  let ?fs = "\<lparr>isfile = (\<lambda>p. True), open_safe_load = (\<lambda>p. Inr YNull)\<rparr>"
  let ?w = "\<lambda>t. if t = ''foot'' then Some ''/usr/bin/foot'' else None"
  let ?n = "\<lambda>t::string. None :: string option"
  let ?item = "[(YStr ''command'', YStr ''htop''), (YStr ''terminal'', YBool True),
      (YStr ''use_uwsm'', YBool False)]"
  have res: "find_terminal ?w = Some ''foot''" and unres: "find_terminal ?n = None"
    by (simp_all add: find_terminal_def TERMINALS_def)
  have s1: "do_startup ?fs ''/opt/dusky'' ?w =
      Inr \<lparr>self_config = YMap [(YStr ''pages'', YList [])], self_terminal = Some ''foot''\<rparr>"
    by (simp add: do_startup_def load_config_def res)
  have s2: "do_startup ?fs ''/opt/dusky'' ?n =
      Inr \<lparr>self_config = YMap [(YStr ''pages'', YList [])], self_terminal = None\<rparr>"
    by (simp add: do_startup_def load_config_def unres)
  have a2: "dict_get ?item (YStr ''command'') (YStr []) = YStr ''htop''"
    by (simp add: dict_get_def)
  have a3: "strip ''htop'' \<noteq> []" by (simp add: strip_def isspace_def)
  have a4: "truthy (dict_get ?item (YStr ''terminal'') (YBool False))"
    by (simp add: dict_get_def)
  have eff: "effective_use_uwsm ?item ''htop'' = YBool False"
    by (simp add: effective_use_uwsm_def dict_get_def str_contains_def sublist_Cons_right)
  from terminal_click_always_wrapped [OF s1 a2 a3 a4, of "''foot''" "\<lambda>s. s" "\<lambda>c. None"] res
  have r1: \<open>on_run_clicked
     \<lparr>self_config = YMap [(YStr ''pages'', YList [])], self_terminal = Some ''foot''\<rparr>
     (\<lambda>s. s) (\<lambda>c. None) ?item =
     ([Expandvars ''htop'', PrintExec ''htop'' (YBool True) (YBool False),
       Popen \<lparr>popen_args = ArgList [''uwsm-app'', ''--'', ''foot'', ''--title'',
                  ''Dusky Control Center'', ''sh'', ''-c'',
                  ''htop; echo ""; echo "Press Enter to close..."; read''],
              shell = False, start_new_session = True,
              stdin = DEVNULL, stdout = DEVNULL, stderr = DEVNULL\<rparr>], None)\<close>
    by (simp add: Let_def eff dict_get_def build_terminal_cmd_def wait_suffix_def APP_TITLE_def)
  from terminal_click_always_wrapped [OF s2 a2 a3 a4, of "''foot''" "\<lambda>s. s" "\<lambda>c. None"] unres
  have r2: "on_run_clicked
     \<lparr>self_config = YMap [(YStr ''pages'', YList [])], self_terminal = None\<rparr>
     (\<lambda>s. s) (\<lambda>c. None) ?item =
     ([Expandvars ''htop'', PrintExec ''htop'' (YBool True) (YBool False),
       Print ''No terminal found, running in background.'',
       Popen \<lparr>popen_args = ArgList [''uwsm-app'', ''--'', ''sh'', ''-c'', ''htop''],
              shell = False, start_new_session = True,
              stdin = DEVNULL, stdout = DEVNULL, stderr = DEVNULL\<rparr>], None)"
    by (simp add: Let_def eff dict_get_def)
  from s1 r1 s2 r2 show ?thesis by (intro conjI)
qed

text \<open>
  C9. Whenever a \<^verbatim>\<open>Popen\<close> call of the handler raises, in the terminal or in the
  background branch, no exception leaves the handler and its last event is the
  \<^verbatim>\<open>print\<close> of the error. An exception that does leave the handler is raised before any
  event.
\<close>

theorem spawn_exception_caught:
  "(Popen call \<in> set (fst (on_run_clicked self expandvars popen item_data)) \<and>
      popen call = Some e \<longrightarrow>
        snd (on_run_clicked self expandvars popen item_data) = None \<and>
        last (fst (on_run_clicked self expandvars popen item_data)) = Print (''Error: '' @ msg e)) \<and>
   (snd (on_run_clicked self expandvars popen item_data) \<noteq> None \<longrightarrow>
      fst (on_run_clicked self expandvars popen item_data) = [])"
proof (cases "\<exists>c. dict_get item_data (YStr ''command'') (YStr []) = YStr c")
  case False
  then have "\<forall>c. dict_get item_data (YStr ''command'') (YStr []) \<noteq> YStr c" by simp
  then have "fst (on_run_clicked self expandvars popen item_data) = []"
    by (rule on_run_clicked_not_str)
  then show ?thesis by simp
next
  case True
  then obtain c where c: "dict_get item_data (YStr ''command'') (YStr []) = YStr c" by blast
  show ?thesis
  proof (cases "strip c = []")
    case True
    with c have "on_run_clicked self expandvars popen item_data = ([], None)"
      by (rule on_run_clicked_blank)
    then show ?thesis by simp
  next
    case False
    note d = on_run_clicked_dispatch [OF c False, of self expandvars popen]
    show ?thesis
    proof (cases "truthy (dict_get item_data (YStr ''terminal'') (YBool False))")
      case bg: False
      then show ?thesis
        by (auto simp: d spawn_process_eq Let_def split: option.split)
    next
      case tm: True
      show ?thesis
      proof (cases "truthy_opt (self_terminal self)")
        case True
        then obtain t where "self_terminal self = Some t" "t \<noteq> []"
          by (cases "self_terminal self") auto
        then show ?thesis using tm
          by (auto simp: d spawn_terminal_resolved Let_def split: option.split)
      next
        case False
        then show ?thesis using tm
          by (auto simp: d spawn_terminal_def spawn_process_eq Let_def split: option.split)
      qed
    qed
  qed
qed

theorem spawn_exception_caught_witness:
  "on_run_clicked \<lparr>self_config = YNull, self_terminal = Some ''kitty''\<rparr> (\<lambda>s. s)
     (\<lambda>c. Some (Exn ''FileNotFoundError'' ''No such file or directory''))
     [(YStr ''command'', YStr ''echo hi'')] =
     ([Expandvars ''echo hi'', PrintExec ''echo hi'' (YBool False) (YBool True),
       Popen \<lparr>popen_args = ArgList [''uwsm-app'', ''--'', ''sh'', ''-c'', ''echo hi''],
              shell = False, start_new_session = True,
              stdin = DEVNULL, stdout = DEVNULL, stderr = DEVNULL\<rparr>,
       Print ''Error: No such file or directory''], None) \<and>
   snd (on_run_clicked \<lparr>self_config = YNull, self_terminal = Some ''kitty''\<rparr> (\<lambda>s. s)
     (\<lambda>c. Some (Exn ''FileNotFoundError'' ''No such file or directory''))
     [(YStr ''command'', YStr ''echo hi'')]) = None \<and>
   last (fst (on_run_clicked \<lparr>self_config = YNull, self_terminal = Some ''kitty''\<rparr> (\<lambda>s. s)
     (\<lambda>c. Some (Exn ''FileNotFoundError'' ''No such file or directory''))
     [(YStr ''command'', YStr ''echo hi'')])) = Print ''Error: No such file or directory''"
proof -
  let ?self = "\<lparr>self_config = YNull, self_terminal = Some ''kitty''\<rparr>"
  let ?e = "Exn ''FileNotFoundError'' ''No such file or directory''"
  let ?item = "[(YStr ''command'', YStr ''echo hi'')]"
  let ?call = "\<lparr>popen_args = ArgList [''uwsm-app'', ''--'', ''sh'', ''-c'', ''echo hi''],
              shell = False, start_new_session = True,
              stdin = DEVNULL, stdout = DEVNULL, stderr = DEVNULL\<rparr>"
  have val: "on_run_clicked ?self (\<lambda>s. s) (\<lambda>c. Some ?e) ?item =
     ([Expandvars ''echo hi'', PrintExec ''echo hi'' (YBool False) (YBool True), Popen ?call,
       Print ''Error: No such file or directory''], None)"
    by (simp add: on_run_clicked_def dict_get_def strip_def isspace_def effective_use_uwsm_def
          str_contains_def sublist_Cons_right spawn_process_def Let_def)
  then have mem: "Popen ?call \<in> set (fst (on_run_clicked ?self (\<lambda>s. s) (\<lambda>c. Some ?e) ?item)) \<and>
      (\<lambda>c. Some ?e) ?call = Some ?e"
    by simp
  from spawn_exception_caught [of ?call ?self "\<lambda>s. s" "\<lambda>c. Some ?e" ?item ?e, THEN conjunct1] mem
  have "snd (on_run_clicked ?self (\<lambda>s. s) (\<lambda>c. Some ?e) ?item) = None \<and>
        last (fst (on_run_clicked ?self (\<lambda>s. s) (\<lambda>c. Some ?e) ?item)) = Print (''Error: '' @ msg ?e)"
    by (rule mp)
  with val show ?thesis by simp
qed

end
